theory Spec2Isabelle
  imports Complex_Main "HOL-Library.Multiset"
begin

section \<open>Python strings\<close>

text \<open>
  A \<^typ>\<open>string\<close> stands for a Python \<open>str\<close> whose code points are below 256; a
  \<^typ>\<open>char\<close> is one code point. The helpers below are the \<open>str\<close> methods that
  \<open>model.py\<close> calls, with Python's behaviour on that range.
\<close>

text \<open>\<open>str.isspace\<close> of one code point: the characters \<open>str.strip()\<close> removes.\<close>

definition is_space :: "char \<Rightarrow> bool" where
  "is_space c = (let n = (of_char c :: nat) in
     (9 \<le> n \<and> n \<le> 13) \<or> (28 \<le> n \<and> n \<le> 32) \<or> n = 133 \<or> n = 160)"

text \<open>\<open>s.strip()\<close>\<close>

definition strip :: "string \<Rightarrow> string" where
  "strip s = rev (dropWhile is_space (rev (dropWhile is_space s)))"

text \<open>\<open>s.lower()\<close>: \<open>A\<close>..\<open>Z\<close> and the upper-case letters of Latin-1 move up by 32.\<close>

definition lower_char :: "char \<Rightarrow> char" where
  "lower_char c = (let n = (of_char c :: nat) in
     if (65 \<le> n \<and> n \<le> 90) \<or> (192 \<le> n \<and> n \<le> 214) \<or> (216 \<le> n \<and> n \<le> 222)
     then char_of (n + 32) else c)"

definition lower :: "string \<Rightarrow> string" where
  "lower s = map lower_char s"

text \<open>\<open>s.startswith(p)\<close> and \<open>s.endswith(p)\<close>\<close>

definition startswith :: "string \<Rightarrow> string \<Rightarrow> bool" where
  "startswith s p = (take (length p) s = p)"

definition endswith :: "string \<Rightarrow> string \<Rightarrow> bool" where
  "endswith s p = (length p \<le> length s \<and> drop (length s - length p) s = p)"

text \<open>\<open>sub in s\<close>\<close>

fun contains :: "string \<Rightarrow> string \<Rightarrow> bool" where
  "contains sub [] = (sub = [])"
| "contains sub (c # cs) = (startswith (c # cs) sub \<or> contains sub cs)"

text \<open>\<open>s.split(sep)\<close> for a one-character separator: never empty, \<open>''''.split(sep) = ['''']\<close>.\<close>

fun split :: "char \<Rightarrow> string \<Rightarrow> string list" where
  "split sep [] = [[]]"
| "split sep (c # cs) =
     (if c = sep then [] # split sep cs
      else (case split sep cs of [] \<Rightarrow> [[c]] | w # ws \<Rightarrow> (c # w) # ws))"

text \<open>\<open>s.split(sep, 1)\<close>: one element when \<open>sep\<close> does not occur, else what is before the
  first \<open>sep\<close> and everything after it.\<close>

definition split1 :: "char \<Rightarrow> string \<Rightarrow> string list" where
  "split1 sep s =
     (if sep \<in> set s then [takeWhile (\<lambda>c. c \<noteq> sep) s, tl (dropWhile (\<lambda>c. c \<noteq> sep) s)]
      else [s])"

text \<open>\<open>sep.join(parts)\<close>\<close>

fun join :: "string \<Rightarrow> string list \<Rightarrow> string" where
  "join sep [] = []"
| "join sep [p] = p"
| "join sep (p # q # ps) = p @ sep @ join sep (q # ps)"

text \<open>\<open>s.find(c)\<close> and \<open>s.rfind(c)\<close> for one character: the index of the first (last)
  occurrence, \<open>-1\<close> when there is none.\<close>

fun find_from :: "char \<Rightarrow> string \<Rightarrow> nat \<Rightarrow> int" where
  "find_from c [] i = -1"
| "find_from c (x # xs) i = (if x = c then int i else find_from c xs (Suc i))"

definition find :: "string \<Rightarrow> char \<Rightarrow> int" where
  "find s c = find_from c s 0"

definition rfind :: "string \<Rightarrow> char \<Rightarrow> int" where
  "rfind s c = (let r = find_from c (rev s) 0 in if r < 0 then -1 else int (length s) - 1 - r)"

text \<open>\<open>s[i:j]\<close> for \<open>0 \<le> i\<close> and \<open>0 \<le> j\<close>: empty when \<open>j \<le> i\<close>, cut at the end of \<open>s\<close>.\<close>

definition slice :: "string \<Rightarrow> nat \<Rightarrow> nat \<Rightarrow> string" where
  "slice s i j = take (j - i) (drop i s)"

text \<open>\<open>str(n)\<close> for an integer.\<close>

function str_nat :: "nat \<Rightarrow> string" where
  "str_nat n =
     (if n < 10 then [char_of (48 + n)]
      else str_nat (n div 10) @ [char_of (48 + n mod 10)])"
  by pat_completeness auto
termination
  by (relation "measure id") auto

definition str_int :: "int \<Rightarrow> string" where
  "str_int i = (if i < 0 then CHR ''-'' # str_nat (nat (- i)) else str_nat (nat i))"

section \<open>The fallback parser: \<open>_extract_courses_from_text\<close>\<close>

text \<open>The dictionary with the five keys that the parser and the sentinel records build.\<close>

record course =
  course_name :: string
  provider :: string
  description :: string
  url :: string
  relevance :: string

text \<open>The tuple given to \<open>startswith\<close> in the first loop.\<close>

definition enumerators :: "string list" where
  "enumerators = [''1.'', ''2.'', ''3.'', ''Course 1:'', ''Course 2:'', ''Course 3:'']"

definition starts_section :: "string \<Rightarrow> bool" where
  "starts_section line = list_ex (startswith (strip line)) enumerators"

text \<open>
  One turn of the first loop, on the pair \<open>(sections, current_section)\<close>. A string is
  true in Python when it is not empty.
\<close>

definition section_step :: "string list \<times> string \<Rightarrow> string \<Rightarrow> string list \<times> string" where
  "section_step st line =
     (case st of (sections, current_section) \<Rightarrow>
        if starts_section line then
          (if current_section \<noteq> [] then sections @ [current_section] else sections, line)
        else if current_section \<noteq> [] then
          (sections, current_section @ ''\<newline>'' @ line)
        else (sections, current_section))"

definition split_sections :: "string \<Rightarrow> string list" where
  "split_sections text =
     (case foldl section_step ([], []) (split CHR ''\<newline>'' text) of
        (sections, current_section) \<Rightarrow>
          if current_section \<noteq> [] then sections @ [current_section] else sections)"

text \<open>One turn of the inner loop: the \<open>if\<close>/\<open>elif\<close> chain on one line of a section.\<close>

definition field_step :: "course \<Rightarrow> string \<Rightarrow> course" where
  "field_step c raw =
     (let line = strip raw; low = lower line; parts = split1 CHR '':'' line in
      if contains ''course'' low \<or> contains ''name'' low then
        (if length parts > 1 then c\<lparr>course_name := strip (parts ! 1)\<rparr> else c)
      else if contains ''provider'' low then
        (if length parts > 1 then c\<lparr>provider := strip (parts ! 1)\<rparr> else c)
      else if contains ''description'' low then
        (if length parts > 1 then c\<lparr>description := strip (parts ! 1)\<rparr> else c)
      else if contains ''url'' low \<or> contains ''http'' low then
        (if length parts > 1 then c\<lparr>url := strip (parts ! 1)\<rparr> else c)
      else if contains ''relevan'' low then
        (if length parts > 1 then c\<lparr>relevance := strip (parts ! 1)\<rparr> else c)
      else c)"

definition section_course :: "string \<Rightarrow> course" where
  "section_course section =
     foldl field_step
       \<lparr>course_name = ''Unknown Course'', provider = ''Unknown Provider'',
        description = section, url = [], relevance = []\<rparr>
       (split CHR ''\<newline>'' section)"

definition extract_courses_from_text :: "string \<Rightarrow> course list" where
  "extract_courses_from_text text = take 3 (map section_course (split_sections text))"

section \<open>Values and exceptions\<close>

text \<open>
  An exception of class \<open>Exception\<close>, with the text \<open>str(e)\<close> gives for it. The first two
  are the ones \<open>model.py\<close> raises itself; \<open>JSONDecodeError\<close> is the one the inner
  \<open>except\<close> of \<open>get_training_courses\<close> names; \<open>LibraryError\<close> is any other exception
  that a library call raises.
\<close>

datatype exn =
    FileNotFoundError string
  | ValueError string
  | KeyError string
  | IndexError string
  | TypeError string
  | AttributeError string
  | JSONDecodeError string
  | LibraryError string

fun str_exn :: "exn \<Rightarrow> string" where
  "str_exn (FileNotFoundError m) = m"
| "str_exn (ValueError m) = m"
| "str_exn (KeyError m) = m"
| "str_exn (IndexError m) = m"
| "str_exn (TypeError m) = m"
| "str_exn (AttributeError m) = m"
| "str_exn (JSONDecodeError m) = m"
| "str_exn (LibraryError m) = m"

text \<open>What \<open>json.loads\<close> and \<open>response.json()\<close> return; a \<open>dict\<close> is an association list
  read with \<^const>\<open>map_of\<close>.\<close>

datatype json =
    JNull
  | JBool bool
  | JInt int
  | JFloat real
  | JStr string
  | JList "json list"
  | JObj "(string \<times> json) list"

text \<open>The name Python prints for the type of a value.\<close>

fun type_name :: "json \<Rightarrow> string" where
  "type_name JNull = ''NoneType''"
| "type_name (JBool b) = ''bool''"
| "type_name (JInt i) = ''int''"
| "type_name (JFloat r) = ''float''"
| "type_name (JStr s) = ''str''"
| "type_name (JList xs) = ''list''"
| "type_name (JObj kvs) = ''dict''"

definition quoted :: "string \<Rightarrow> string" where
  "quoted s = [CHR 0x27] @ s @ [CHR 0x27]"

text \<open>\<open>v[key]\<close> for a string key, with the messages of CPython 3.12.\<close>

fun getitem_key :: "json \<Rightarrow> string \<Rightarrow> exn + json" where
  "getitem_key (JObj kvs) k =
     (case map_of kvs k of Some v \<Rightarrow> Inr v | None \<Rightarrow> Inl (KeyError (quoted k)))"
| "getitem_key (JList xs) k =
     Inl (TypeError ''list indices must be integers or slices, not str'')"
| "getitem_key (JStr s) k =
     Inl (TypeError (''string indices must be integers, not '' @ quoted ''str''))"
| "getitem_key v k =
     Inl (TypeError (quoted (type_name v) @ '' object is not subscriptable''))"

text \<open>\<open>v[0]\<close>: the keys of a decoded \<open>dict\<close> are strings, so \<open>0\<close> is never one.\<close>

fun getitem_0 :: "json \<Rightarrow> exn + json" where
  "getitem_0 (JList xs) =
     (case xs of [] \<Rightarrow> Inl (IndexError ''list index out of range'') | x # _ \<Rightarrow> Inr x)"
| "getitem_0 (JStr s) =
     (case s of [] \<Rightarrow> Inl (IndexError ''string index out of range'') | c # _ \<Rightarrow> Inr (JStr [c]))"
| "getitem_0 (JObj kvs) = Inl (KeyError ''0'')"
| "getitem_0 v = Inl (TypeError (quoted (type_name v) @ '' object is not subscriptable''))"

text \<open>\<open>v.get(key, default)\<close>: only a \<open>dict\<close> has the method.\<close>

fun get_default :: "json \<Rightarrow> string \<Rightarrow> json \<Rightarrow> exn + json" where
  "get_default (JObj kvs) k d = Inr (case map_of kvs k of Some v \<Rightarrow> v | None \<Rightarrow> d)"
| "get_default v k d =
     Inl (AttributeError (quoted (type_name v) @ '' object has no attribute '' @ quoted ''get''))"

text \<open>Sequencing of calls that may raise: the first exception ends the sequence.\<close>

definition bind :: "exn + 'a \<Rightarrow> ('a \<Rightarrow> exn + 'b) \<Rightarrow> exn + 'b" where
  "bind r f = (case r of Inl e \<Rightarrow> Inl e | Inr v \<Rightarrow> f v)"

section \<open>The system and what it calls\<close>

text \<open>The arguments of one \<open>requests.post\<close> call and the parts of its response that are read.\<close>

record request =
  req_url :: string
  req_headers :: "(string \<times> string) list"
  req_json :: json

record response =
  status_code :: int
  response_json :: "exn + json"
  response_text :: string

text \<open>
  The attributes of a constructed \<open>JobRecommendationSystem\<close> and the library calls its
  methods make. \<open>requests_post\<close> is given the requests sent before, so the answer of the
  service may depend on them. \<open>json_repr\<close> is the text an f-string gives for a decoded
  float, list or dict.
\<close>

record env =
  path_exists :: "string \<Rightarrow> bool"
  pdf_page_texts :: "string \<Rightarrow> exn + string option list"
  docx_paragraphs :: "string \<Rightarrow> exn + string list"
  vectorizer_transform :: "string \<Rightarrow> exn + real list"
  model_input_width :: nat
  model_predict :: "real list \<Rightarrow> exn + real list"
  np_argsort :: "real list \<Rightarrow> nat list"
  job_titles :: "(string \<times> string) list"
  gemini_api_key :: "string option"
  requests_post :: "request list \<Rightarrow> request \<Rightarrow> exn + response"
  json_loads :: "string \<Rightarrow> exn + json"
  json_repr :: "json \<Rightarrow> string"

section \<open>\<open>extract_text_from_resume\<close>\<close>

definition extract_text_from_resume :: "env \<Rightarrow> string \<Rightarrow> exn + string" where
  "extract_text_from_resume E file_path =
     (if \<not> path_exists E file_path then
        Inl (FileNotFoundError (''Resume file not found: '' @ file_path))
      else if endswith (lower file_path) ''.pdf'' then
        (case pdf_page_texts E file_path of
           Inr pages \<Rightarrow>
             Inr (join ''\<newline>'' (map (\<lambda>t. case t of None \<Rightarrow> [] | Some s \<Rightarrow> s) pages))
         | Inl e \<Rightarrow> Inl (ValueError (''Error extracting text from PDF: '' @ str_exn e)))
      else if endswith (lower file_path) ''.docx'' then
        (case docx_paragraphs E file_path of
           Inr paragraphs \<Rightarrow> Inr (join ''\<newline>'' paragraphs)
         | Inl e \<Rightarrow> Inl (ValueError (''Error extracting text from DOCX: '' @ str_exn e)))
      else Inl (ValueError ''Unsupported file format. Only .pdf and .docx are supported.''))"

section \<open>\<open>preprocess_resume\<close>\<close>

text \<open>The arrays have one row; the row is what is kept.\<close>

definition preprocess_resume :: "env \<Rightarrow> string \<Rightarrow> real list" where
  "preprocess_resume E resume_text =
     (case vectorizer_transform E resume_text of
        Inr features \<Rightarrow> features
      | Inl e \<Rightarrow> replicate (model_input_width E) 0)"

section \<open>\<open>get_top_job_recommendations\<close>\<close>

record recommendation =
  job_title :: string
  confidence :: real

text \<open>\<open>len(d)\<close> and \<open>d.get(k, default)\<close> of the title dictionary.\<close>

definition dict_len :: "(string \<times> string) list \<Rightarrow> nat" where
  "dict_len d = length (remdups (map fst d))"

definition dict_get :: "(string \<times> string) list \<Rightarrow> string \<Rightarrow> string \<Rightarrow> string" where
  "dict_get d k dflt = (case map_of d k of Some v \<Rightarrow> v | None \<Rightarrow> dflt)"

text \<open>\<open>xs[-n:]\<close>: for \<open>n > 0\<close> the last \<open>n\<close> elements; \<open>-0\<close> is \<open>0\<close>, so for \<open>n = 0\<close> the whole
  list; for \<open>n < 0\<close> the list without its first \<open>-n\<close> elements.\<close>

definition slice_from_neg :: "'a list \<Rightarrow> int \<Rightarrow> 'a list" where
  "slice_from_neg xs n =
     (if 0 < n then drop (length xs - nat n) xs else drop (nat (- n)) xs)"

definition top_indices :: "env \<Rightarrow> real list \<Rightarrow> int \<Rightarrow> nat list" where
  "top_indices E scores top_n =
     rev (slice_from_neg (np_argsort E scores)
            (min top_n (int (dict_len (job_titles E)))))"

definition error_in_prediction :: "recommendation list" where
  "error_in_prediction = [\<lparr>job_title = ''Error in prediction'', confidence = 0\<rparr>]"

text \<open>An index outside the score row raises \<open>IndexError\<close> inside the \<open>try\<close>.\<close>

definition get_top_job_recommendations :: "env \<Rightarrow> string \<Rightarrow> int \<Rightarrow> recommendation list" where
  "get_top_job_recommendations E resume_text top_n =
     (let features = preprocess_resume E resume_text in
      case model_predict E features of
        Inl e \<Rightarrow> error_in_prediction
      | Inr scores \<Rightarrow>
          (let idxs = top_indices E scores top_n in
           if list_all (\<lambda>idx. idx < length scores) idxs then
             map (\<lambda>idx. \<lparr>job_title = dict_get (job_titles E) (str_nat idx)
                                       (''Job Category '' @ str_nat (idx + 1)),
                          confidence = scores ! idx\<rparr>) idxs
           else error_in_prediction))"

section \<open>\<open>get_training_courses\<close>\<close>

text \<open>What the method returns: a list of dictionaries it built, or whatever \<open>json.loads\<close>
  returned.\<close>

datatype courses = Records "course list" | Parsed json

definition gemini_api_url :: string where
  "gemini_api_url =
     ''https://generativelanguage.googleapis.com/v1beta/models/gemini-pro:generateContent''"

definition api_key_missing :: course where
  "api_key_missing =
     \<lparr>course_name = ''API Key Missing'', provider = ''N/A'',
      description = ''No Gemini API key provided in environment variables.'',
      url = [],
      relevance = ''Please set the VITE_GEMINI_API_KEY environment variable.''\<rparr>"

definition api_error :: "string \<Rightarrow> course" where
  "api_error error_msg =
     \<lparr>course_name = ''API Error'', provider = ''N/A'', description = error_msg, url = [],
      relevance = ''Please check your API key and network connection.''\<rparr>"

definition api_exception :: "exn \<Rightarrow> course" where
  "api_exception e =
     \<lparr>course_name = ''Exception'', provider = ''N/A'',
      description = ''Exception when calling Gemini API: '' @ str_exn e, url = [],
      relevance = ''Please check your network connection.''\<rparr>"

text \<open>The f-string of the prompt, line by line.\<close>

definition prompt :: "string \<Rightarrow> string \<Rightarrow> string" where
  "prompt job resume_text =
     ''\<newline>'' @
     ''        Based on this resume: \<newline>'' @
     ''        \<newline>'' @
     ''        '' @ resume_text @ ''\<newline>'' @
     ''        \<newline>'' @
     ''        I need 3 specific training courses available online that would help this person qualify for a ''
       @ job @ '' position.\<newline>'' @
     ''        \<newline>'' @
     ''        For each course, provide:\<newline>'' @
     ''        1. Course name\<newline>'' @
     ''        2. Provider (website/platform)\<newline>'' @
     ''        3. Brief description of what skills it will teach\<newline>'' @
     ''        4. URL if available\<newline>'' @
     ''        5. Why it'' @ [CHR 0x27] @ ''s relevant for this specific job\<newline>'' @
     ''        \<newline>'' @
     ''        Format as a JSON list with course name, provider, description, url, and relevance fields.\<newline>'' @
     ''        ''"

definition build_request :: "string \<Rightarrow> string \<Rightarrow> string \<Rightarrow> request" where
  "build_request key job resume_text =
     \<lparr>req_url = gemini_api_url,
      req_headers = [(''Content-Type'', ''application/json''), (''x-goog-api-key'', key)],
      req_json =
        JObj [(''contents'',
               JList [JObj [(''parts'', JList [JObj [(''text'', JStr (prompt job resume_text))]])]])]\<rparr>"

text \<open>
  The inner \<open>try\<close> on \<open>text_response\<close>: the span from the first \<open>[\<close> to the last \<open>]\<close> is
  decoded; \<open>JSONDecodeError\<close> goes to the fallback parser, any other exception leaves
  through \<open>Inl\<close>. A value that is not a string has no \<open>find\<close>.
\<close>

definition parse_text_response :: "env \<Rightarrow> json \<Rightarrow> exn + courses" where
  "parse_text_response E v =
     (case v of
        JStr text_response \<Rightarrow>
          (let json_start = find text_response CHR ''['';
               json_end = rfind text_response CHR '']'' + 1 in
           if json_start \<ge> 0 \<and> json_end > 0 then
             (case json_loads E (slice text_response (nat json_start) (nat json_end)) of
                Inr parsed \<Rightarrow> Inr (Parsed parsed)
              | Inl e \<Rightarrow>
                  (case e of
                     JSONDecodeError m \<Rightarrow> Inr (Records (extract_courses_from_text text_response))
                   | _ \<Rightarrow> Inl e))
           else Inr (Records (extract_courses_from_text text_response)))
      | _ \<Rightarrow>
          Inl (AttributeError
                 (quoted (type_name v) @ '' object has no attribute '' @ quoted ''find'')))"

text \<open>\<open>response.json()["candidates"][0]["content"]["parts"][0]["text"]\<close>\<close>

definition text_response_of :: "response \<Rightarrow> exn + json" where
  "text_response_of r =
     bind (response_json r) (\<lambda>response_data.
     bind (getitem_key response_data ''candidates'') (\<lambda>candidates.
     bind (getitem_0 candidates) (\<lambda>candidate.
     bind (getitem_key candidate ''content'') (\<lambda>content.
     bind (getitem_key content ''parts'') (\<lambda>parts.
     bind (getitem_0 parts) (\<lambda>part.
     getitem_key part ''text''))))))"

text \<open>The branch for status 200; \<open>Inl\<close> is an exception on its way to the outer
  \<open>except\<close>.\<close>

definition parse_success :: "env \<Rightarrow> response \<Rightarrow> exn + courses" where
  "parse_success E r = bind (text_response_of r) (parse_text_response E)"

text \<open>The text an f-string puts for a decoded value.\<close>

definition format_value :: "env \<Rightarrow> json \<Rightarrow> string" where
  "format_value E v =
     (case v of
        JStr s \<Rightarrow> s
      | JNull \<Rightarrow> ''None''
      | JBool b \<Rightarrow> (if b then ''True'' else ''False'')
      | JInt i \<Rightarrow> str_int i
      | _ \<Rightarrow> json_repr E v)"

text \<open>The branch for any other status; its \<open>except\<close> is bare.\<close>

definition error_message :: "env \<Rightarrow> response \<Rightarrow> string" where
  "error_message E r =
     (let error_msg = ''Error calling Gemini API: '' @ str_int (status_code r) in
      case bind (response_json r) (\<lambda>j.
           bind (get_default j ''error'' (JObj [])) (\<lambda>err.
           get_default err ''message'' (JStr ''Unknown error''))) of
        Inr error_detail \<Rightarrow> error_msg @ '' - '' @ format_value E error_detail
      | Inl e \<Rightarrow> error_msg @ '' - '' @ take 100 (response_text r))"

text \<open>
  The method, on the list of requests sent so far: it returns the courses and the list
  with the request it sent, if it sent one. \<open>not key\<close> holds for \<open>None\<close> and for the
  empty string.
\<close>

definition get_training_courses ::
  "env \<Rightarrow> string \<Rightarrow> string \<Rightarrow> request list \<Rightarrow> courses \<times> request list" where
  "get_training_courses E job resume_text sent =
     (case gemini_api_key E of
        None \<Rightarrow> (Records [api_key_missing], sent)
      | Some key \<Rightarrow>
          if key = [] then (Records [api_key_missing], sent)
          else
            (let req = build_request key job resume_text in
             (case requests_post E sent req of
                Inl e \<Rightarrow> Records [api_exception e]
              | Inr r \<Rightarrow>
                  if status_code r = 200 then
                    (case parse_success E r of
                       Inr cs \<Rightarrow> cs
                     | Inl e \<Rightarrow> Records [api_exception e])
                  else Records [api_error (error_message E r)],
              sent @ [req])))"

section \<open>\<open>process_resume_file\<close>\<close>

text \<open>An entry of \<open>results\<close>: the recommendation with its courses.\<close>

record job_result = recommendation +
  training_courses :: courses

datatype pipeline_result = Recommendations "job_result list" | ErrorResult string

text \<open>The \<open>for\<close> loop over the recommendations.\<close>

fun enrich_jobs ::
  "env \<Rightarrow> string \<Rightarrow> recommendation list \<Rightarrow> request list \<Rightarrow> job_result list \<times> request list"
  where
  "enrich_jobs E resume_text [] sent = ([], sent)"
| "enrich_jobs E resume_text (job # jobs) sent =
     (case get_training_courses E (job_title job) resume_text sent of
        (cs, sent1) \<Rightarrow>
          (case enrich_jobs E resume_text jobs sent1 of
             (results, sent2) \<Rightarrow>
               (\<lparr>job_title = job_title job, confidence = confidence job,
                 training_courses = cs\<rparr> # results, sent2)))"

text \<open>
  The \<open>try\<close> of the method: of the calls in it only the extraction can raise, and the
  \<open>except\<close> turns that into the error result.
\<close>

definition process_resume_file ::
  "env \<Rightarrow> string \<Rightarrow> request list \<Rightarrow> pipeline_result \<times> request list" where
  "process_resume_file E file_path sent =
     (case extract_text_from_resume E file_path of
        Inl e \<Rightarrow> (ErrorResult (str_exn e), sent)
      | Inr resume_text \<Rightarrow>
          (case enrich_jobs E resume_text (get_top_job_recommendations E resume_text 3) sent of
             (results, sent1) \<Rightarrow> (Recommendations results, sent1)))"

section \<open>Example systems\<close>

text \<open>An \<open>argsort\<close> that keeps equal scores in index order, as an insertion sort does.\<close>

definition stable_argsort :: "real list \<Rightarrow> nat list" where
  "stable_argsort scores = sort_key (\<lambda>i. scores ! i) [0..<length scores]"

text \<open>The mapping that the script writes to \<open>job_titles.json\<close> when the file is absent.\<close>

definition example_job_mapping :: "(string \<times> string) list" where
  "example_job_mapping =
     [(''0'', ''Data Scientist''), (''1'', ''Software Engineer''), (''2'', ''Product Manager''),
      (''3'', ''UX Designer''), (''4'', ''DevOps Engineer'')]"

text \<open>
  A system with five files on disk, a five-category model, no API key, a service that
  cannot be reached and a decoder that rejects every text.
\<close>

definition demo_env :: env where
  "demo_env =
     \<lparr>path_exists = (\<lambda>p. p \<in> set [''cv.pdf'', ''CV.DOCX'', ''broken.pdf'', ''broken.docx'', ''notes.txt'']),
      pdf_page_texts =
        (\<lambda>p. if p = ''cv.pdf'' then Inr [Some ''Python and SQL'', None, Some ''Docker'']
             else Inl (LibraryError ''No /Root object! - Is this really a PDF?'')),
      docx_paragraphs =
        (\<lambda>p. if p = ''CV.DOCX'' then Inr [''Designer'', ''Figma'']
             else Inl (LibraryError ''Package not found'')),
      vectorizer_transform = (\<lambda>t. Inr [1, 0, 2]),
      model_input_width = 3,
      model_predict =
        (\<lambda>f. if length f = 3 then Inr [1/10, 1/2, 1/10, 1/4, 1/20]
             else Inl (ValueError ''incompatible shape'')),
      np_argsort = stable_argsort,
      job_titles = example_job_mapping,
      gemini_api_key = None,
      requests_post = (\<lambda>sent req. Inl (LibraryError ''Connection refused'')),
      json_loads = (\<lambda>s. Inl (JSONDecodeError ''Expecting value'')),
      json_repr = (\<lambda>v. [])\<rparr>"

text \<open>The same system with a vectorizer that raises on every text.\<close>

definition unfitted_env :: env where
  "unfitted_env =
     demo_env\<lparr>vectorizer_transform := (\<lambda>t. Inl (LibraryError ''vocabulary not fitted''))\<rparr>"

text \<open>The same system with a model whose \<open>predict\<close> raises on every input.\<close>

definition failing_model_env :: env where
  "failing_model_env =
     demo_env\<lparr>model_predict := (\<lambda>f. Inl (LibraryError ''Graph execution error''))\<rparr>"

text \<open>The body of a response whose generated text is \<open>txt\<close>.\<close>

definition gemini_body :: "string \<Rightarrow> json" where
  "gemini_body txt =
     JObj [(''candidates'',
            JList [JObj [(''content'',
                          JObj [(''parts'', JList [JObj [(''text'', JStr txt)]])])]])]"

text \<open>A list of one course as JSON text, and what \<open>json.loads\<close> returns for it.\<close>

definition one_course_text :: string where
  "one_course_text = ''[{'' @ [CHR 0x22] @ ''course_name'' @ [CHR 0x22] @ '': ''
     @ [CHR 0x22] @ ''X'' @ [CHR 0x22] @ ''}]''"

definition one_course_value :: json where
  "one_course_value = JList [JObj [(''course_name'', JStr ''X'')]]"

text \<open>
  \<open>json.loads\<close> on the texts of the examples: the list of one course is decoded, and a
  text that goes on after the list, or is no JSON at all, raises \<open>JSONDecodeError\<close>.
\<close>

definition example_loads :: "string \<Rightarrow> exn + json" where
  "example_loads s =
     (if s = one_course_text then Inr one_course_value
      else Inl (JSONDecodeError ''Extra data''))"

text \<open>A system with an API key whose service answers every request with status 200 and
  the generated text \<open>txt\<close>.\<close>

definition answering_env :: "string \<Rightarrow> env" where
  "answering_env txt =
     demo_env\<lparr>gemini_api_key := Some ''secret'',
              requests_post :=
                (\<lambda>sent req. Inr \<lparr>status_code = 200, response_json = Inr (gemini_body txt),
                                 response_text = []\<rparr>),
              json_loads := example_loads\<rparr>"

text \<open>A system with an API key whose service refuses every request with status 429.\<close>

definition refusing_env :: env where
  "refusing_env =
     demo_env\<lparr>gemini_api_key := Some ''secret'',
              requests_post :=
                (\<lambda>sent req. Inr \<lparr>status_code = 429,
                                 response_json =
                                   Inr (JObj [(''error'', JObj [(''message'', JStr ''Quota exceeded'')])]),
                                 response_text = []\<rparr>)\<rparr>"

text \<open>A system with an API key and no network.\<close>

definition offline_env :: env where
  "offline_env = demo_env\<lparr>gemini_api_key := Some ''secret''\<rparr>"

section \<open>What the claims use\<close>

text \<open>\<open>idxs\<close> is an \<open>argsort\<close> of \<open>scores\<close>: every index once, scores ascending.\<close>

definition is_argsort :: "real list \<Rightarrow> nat list \<Rightarrow> bool" where
  "is_argsort scores idxs =
     (mset idxs = mset [0..<length scores] \<and> sorted (map (\<lambda>i. scores ! i) idxs))"

text \<open>The two tests \<open>extract_text_from_resume\<close> makes on the lower-cased path.\<close>

definition is_pdf :: "string \<Rightarrow> bool" where
  "is_pdf p = endswith (lower p) ''.pdf''"

definition is_docx :: "string \<Rightarrow> bool" where
  "is_docx p = endswith (lower p) ''.docx''"

text \<open>\<open>s.lstrip()\<close>\<close>

definition lstrip :: "string \<Rightarrow> string" where
  "lstrip s = dropWhile is_space s"

section \<open>The fallback parser on the example text, and its cap\<close>

lemma extract_courses_example:
  "extract_courses_from_text
     ''1. Course A\<newline>Provider: Udemy\<newline>2. Course B\<newline>Provider: edX'' =
   [\<lparr>course_name = ''Unknown Course'', provider = ''Udemy'',
     description = ''1. Course A\<newline>Provider: Udemy'', url = [], relevance = []\<rparr>,
    \<lparr>course_name = ''Unknown Course'', provider = ''edX'',
     description = ''2. Course B\<newline>Provider: edX'', url = [], relevance = []\<rparr>]"
  by code_simp

lemma extract_courses_length:
  "length (extract_courses_from_text t) = min 3 (length (split_sections t))"
  by (simp add: extract_courses_from_text_def min.commute)

text \<open>
  Claim C2. On the text \<open>1. Course A\<close>, \<open>Provider: Udemy\<close>, \<open>2. Course B\<close>,
  \<open>Provider: edX\<close> (four lines) the fallback parser returns exactly two records, with
  providers \<open>Udemy\<close> and \<open>edX\<close> in that order; and on every text \<open>t\<close> it returns the
  records of the first three sections only, so never more than three.
\<close>

theorem fallback_parser_example_and_cap:
  "map provider
     (extract_courses_from_text
        ''1. Course A\<newline>Provider: Udemy\<newline>2. Course B\<newline>Provider: edX'') =
     [''Udemy'', ''edX'']
   \<and> length (extract_courses_from_text t) \<le> 3
   \<and> extract_courses_from_text t = map section_course (take 3 (split_sections t))"
proof -
  have "length (extract_courses_from_text t) \<le> 3"
    by (simp add: extract_courses_length)
  moreover have "extract_courses_from_text t = map section_course (take 3 (split_sections t))"
    by (simp add: extract_courses_from_text_def take_map)
  ultimately show ?thesis
    by (simp add: extract_courses_example)
qed

section \<open>No credential\<close>

text \<open>
  Claim C6. When no API key is configured (\<open>None\<close> or the empty string), for every job
  title and resume text \<open>get_training_courses\<close> returns a list of exactly one record,
  whose \<open>course_name\<close> is \<open>API Key Missing\<close>, and the list of requests sent is unchanged:
  no network call is made.
\<close>

theorem no_key_single_sentinel:
  assumes "gemini_api_key E = None \<or> gemini_api_key E = Some []"
  shows "\<exists>c. get_training_courses E job resume_text sent = (Records [c], sent)
             \<and> course_name c = ''API Key Missing''"
  using assms by (auto simp: get_training_courses_def api_key_missing_def)

theorem no_key_single_sentinel_witness:
  "gemini_api_key demo_env = None
   \<and> (\<exists>c. get_training_courses demo_env ''Data Scientist'' ''Python and SQL'' [] =
             (Records [c], [])
          \<and> course_name c = ''API Key Missing'')"
proof -
  have key: "gemini_api_key demo_env = None"
    by (simp add: demo_env_def)
  then have "gemini_api_key demo_env = None \<or> gemini_api_key demo_env = Some []"
    by simp
  from no_key_single_sentinel [OF this] key show ?thesis
    by blast
qed

section \<open>A failing encoder\<close>

text \<open>
  Claim C8. When the vectorizer's \<open>transform\<close> raises on the resume text,
  \<open>preprocess_resume\<close> returns a value all the same: the zero vector whose width is the
  input width of the model.
\<close>

theorem preprocess_failure_gives_zero_vector:
  assumes "vectorizer_transform E resume_text = Inl e"
  shows "preprocess_resume E resume_text = replicate (model_input_width E) 0
         \<and> length (preprocess_resume E resume_text) = model_input_width E
         \<and> (\<forall>x \<in> set (preprocess_resume E resume_text). x = 0)"
  using assms by (simp add: preprocess_resume_def)

theorem preprocess_failure_gives_zero_vector_witness:
  "vectorizer_transform unfitted_env ''Python and SQL'' = Inl (LibraryError ''vocabulary not fitted'')
   \<and> preprocess_resume unfitted_env ''Python and SQL'' = [0, 0, 0]"
proof -
  have h: "vectorizer_transform unfitted_env ''Python and SQL''
             = Inl (LibraryError ''vocabulary not fitted'')"
    by (simp add: unfitted_env_def demo_env_def)
  have w: "model_input_width unfitted_env = 3"
    by (simp add: unfitted_env_def demo_env_def)
  from preprocess_failure_gives_zero_vector [OF h] h w show ?thesis
    by (simp add: numeral_3_eq_3)
qed

section \<open>Extraction and its three errors\<close>

text \<open>
  Claim C7. For every file path, \<open>extract_text_from_resume\<close> raises
  \<open>FileNotFoundError\<close> (the spec's \<open>NotFound\<close>) when the path does not exist; the
  \<open>ValueError\<close> with the unsupported-format message (\<open>UnsupportedFormat\<close>) when the
  path exists and its lower-cased form ends neither in \<open>.pdf\<close> nor in \<open>.docx\<close>; and a
  \<open>ValueError\<close> whose message carries the text of the cause (\<open>ExtractionError\<close>) when the
  PDF or DOCX parser raises. When the parser succeeds the result is the joined text, and
  nothing but these three errors is ever raised.
\<close>

theorem extraction_raises_one_of_three:
  "(\<not> path_exists E p \<longrightarrow>
      extract_text_from_resume E p = Inl (FileNotFoundError (''Resume file not found: '' @ p)))
   \<and> (path_exists E p \<and> \<not> is_pdf p \<and> \<not> is_docx p \<longrightarrow>
      extract_text_from_resume E p =
        Inl (ValueError ''Unsupported file format. Only .pdf and .docx are supported.''))
   \<and> (\<forall>e. path_exists E p \<and> is_pdf p \<and> pdf_page_texts E p = Inl e \<longrightarrow>
      extract_text_from_resume E p =
        Inl (ValueError (''Error extracting text from PDF: '' @ str_exn e)))
   \<and> (\<forall>e. path_exists E p \<and> \<not> is_pdf p \<and> is_docx p \<and> docx_paragraphs E p = Inl e \<longrightarrow>
      extract_text_from_resume E p =
        Inl (ValueError (''Error extracting text from DOCX: '' @ str_exn e)))
   \<and> (\<forall>pages. path_exists E p \<and> is_pdf p \<and> pdf_page_texts E p = Inr pages \<longrightarrow>
      extract_text_from_resume E p =
        Inr (join ''\<newline>'' (map (\<lambda>t. case t of None \<Rightarrow> [] | Some s \<Rightarrow> s) pages)))
   \<and> (\<forall>ps. path_exists E p \<and> \<not> is_pdf p \<and> is_docx p \<and> docx_paragraphs E p = Inr ps \<longrightarrow>
      extract_text_from_resume E p = Inr (join ''\<newline>'' ps))
   \<and> (\<forall>err. extract_text_from_resume E p = Inl err \<longrightarrow>
        err = FileNotFoundError (''Resume file not found: '' @ p)
        \<or> err = ValueError ''Unsupported file format. Only .pdf and .docx are supported.''
        \<or> (\<exists>e. pdf_page_texts E p = Inl e
               \<and> err = ValueError (''Error extracting text from PDF: '' @ str_exn e))
        \<or> (\<exists>e. docx_paragraphs E p = Inl e
               \<and> err = ValueError (''Error extracting text from DOCX: '' @ str_exn e)))"
  by (auto simp: extract_text_from_resume_def is_pdf_def is_docx_def
           split: if_splits sum.splits)

theorem extraction_raises_one_of_three_witness:
  "extract_text_from_resume demo_env ''missing.pdf'' =
     Inl (FileNotFoundError ''Resume file not found: missing.pdf'')
   \<and> extract_text_from_resume demo_env ''notes.txt'' =
     Inl (ValueError ''Unsupported file format. Only .pdf and .docx are supported.'')
   \<and> extract_text_from_resume demo_env ''broken.pdf'' =
     Inl (ValueError ''Error extracting text from PDF: No /Root object! - Is this really a PDF?'')
   \<and> extract_text_from_resume demo_env ''broken.docx'' =
     Inl (ValueError ''Error extracting text from DOCX: Package not found'')
   \<and> extract_text_from_resume demo_env ''cv.pdf'' = Inr ''Python and SQL\<newline>\<newline>Docker''
   \<and> extract_text_from_resume demo_env ''CV.DOCX'' = Inr ''Designer\<newline>Figma''"
proof -
  have a: "\<not> path_exists demo_env ''missing.pdf''"
    by (simp add: demo_env_def)
  have b: "path_exists demo_env ''notes.txt'' \<and> \<not> is_pdf ''notes.txt'' \<and> \<not> is_docx ''notes.txt''"
    by code_simp
  have c: "path_exists demo_env ''broken.pdf'' \<and> is_pdf ''broken.pdf''
           \<and> pdf_page_texts demo_env ''broken.pdf''
               = Inl (LibraryError ''No /Root object! - Is this really a PDF?'')"
    by code_simp
  have d: "path_exists demo_env ''broken.docx'' \<and> \<not> is_pdf ''broken.docx''
           \<and> is_docx ''broken.docx''
           \<and> docx_paragraphs demo_env ''broken.docx'' = Inl (LibraryError ''Package not found'')"
    by code_simp
  have e: "path_exists demo_env ''cv.pdf'' \<and> is_pdf ''cv.pdf''
           \<and> pdf_page_texts demo_env ''cv.pdf''
               = Inr [Some ''Python and SQL'', None, Some ''Docker'']"
    by code_simp
  have f: "path_exists demo_env ''CV.DOCX'' \<and> \<not> is_pdf ''CV.DOCX'' \<and> is_docx ''CV.DOCX''
           \<and> docx_paragraphs demo_env ''CV.DOCX'' = Inr [''Designer'', ''Figma'']"
    by code_simp
  have 1: "extract_text_from_resume demo_env ''missing.pdf'' =
     Inl (FileNotFoundError ''Resume file not found: missing.pdf'')"
    using extraction_raises_one_of_three [of demo_env "''missing.pdf''"] a by simp
  have 2: "extract_text_from_resume demo_env ''notes.txt'' =
     Inl (ValueError ''Unsupported file format. Only .pdf and .docx are supported.'')"
    using extraction_raises_one_of_three [of demo_env "''notes.txt''"] b by blast
  have 3: "extract_text_from_resume demo_env ''broken.pdf'' =
     Inl (ValueError ''Error extracting text from PDF: No /Root object! - Is this really a PDF?'')"
    using extraction_raises_one_of_three [of demo_env "''broken.pdf''"] c by simp
  have 4: "extract_text_from_resume demo_env ''broken.docx'' =
     Inl (ValueError ''Error extracting text from DOCX: Package not found'')"
    using extraction_raises_one_of_three [of demo_env "''broken.docx''"] d by simp
  have 5: "extract_text_from_resume demo_env ''cv.pdf'' = Inr ''Python and SQL\<newline>\<newline>Docker''"
    using extraction_raises_one_of_three [of demo_env "''cv.pdf''"] e by simp
  have 6: "extract_text_from_resume demo_env ''CV.DOCX'' = Inr ''Designer\<newline>Figma''"
    using extraction_raises_one_of_three [of demo_env "''CV.DOCX''"] f by simp
  from 1 2 3 4 5 6 show ?thesis by blast
qed

section \<open>The pipeline and its two result shapes\<close>

lemma enrich_jobs_keeps:
  "map (\<lambda>r. (job_title r, confidence r)) (fst (enrich_jobs E t jobs sent)) =
   map (\<lambda>r. (job_title r, confidence r)) jobs"
  by (induction jobs arbitrary: sent) (simp_all add: split_beta)

lemma demo_cv_text:
  "extract_text_from_resume demo_env ''cv.pdf'' = Inr ''Python and SQL\<newline>\<newline>Docker''"
  by code_simp

text \<open>
  Claim C1, as the code has it. \<open>process_resume_file\<close> always returns, and its result is
  exactly one of the two shapes. An exception of the extraction, in particular the one
  for a path that does not exist, is caught by the \<open>except\<close> of the method and becomes
  the error shape with the text of the exception, with no request sent. When the
  extraction succeeds the result has the recommendations shape, with the titles and
  confidences of \<open>get_top_job_recommendations\<close>: an exception of the encoder, of the
  model or of the enrichment never reaches the \<open>except\<close> of the method, because
  \<open>preprocess_resume\<close>, \<open>get_top_job_recommendations\<close> and \<open>get_training_courses\<close>
  absorb it themselves.
\<close>

theorem process_resume_file_shapes:
  "((\<exists>rs. fst (process_resume_file E p sent) = Recommendations rs)
      \<noteq> (\<exists>m. fst (process_resume_file E p sent) = ErrorResult m))
   \<and> (\<not> path_exists E p \<longrightarrow>
        process_resume_file E p sent = (ErrorResult (''Resume file not found: '' @ p), sent))
   \<and> (\<forall>e. extract_text_from_resume E p = Inl e \<longrightarrow>
        process_resume_file E p sent = (ErrorResult (str_exn e), sent))
   \<and> (\<forall>t. extract_text_from_resume E p = Inr t \<longrightarrow>
        (\<exists>rs. fst (process_resume_file E p sent) = Recommendations rs
            \<and> map (\<lambda>r. (job_title r, confidence r)) rs =
              map (\<lambda>r. (job_title r, confidence r)) (get_top_job_recommendations E t 3)))"
proof -
  have missing: "\<not> path_exists E p \<Longrightarrow>
      extract_text_from_resume E p = Inl (FileNotFoundError (''Resume file not found: '' @ p))"
    by (simp add: extract_text_from_resume_def)
  show ?thesis
    using missing
    by (cases "extract_text_from_resume E p")
       (auto simp: process_resume_file_def enrich_jobs_keeps split_beta)
qed

theorem process_resume_file_shapes_witness:
  "process_resume_file demo_env ''missing.pdf'' [] =
     (ErrorResult ''Resume file not found: missing.pdf'', [])
   \<and> process_resume_file demo_env ''notes.txt'' [] =
     (ErrorResult ''Unsupported file format. Only .pdf and .docx are supported.'', [])
   \<and> (\<exists>rs. fst (process_resume_file demo_env ''cv.pdf'' []) = Recommendations rs
          \<and> map (\<lambda>r. (job_title r, confidence r)) rs =
            [(''Software Engineer'', 1/2), (''UX Designer'', 1/4), (''Product Manager'', 1/10)])"
proof -
  have a: "\<not> path_exists demo_env ''missing.pdf''"
    by (simp add: demo_env_def)
  have b: "extract_text_from_resume demo_env ''notes.txt'' =
      Inl (ValueError ''Unsupported file format. Only .pdf and .docx are supported.'')"
    by code_simp
  have top: "map (\<lambda>r. (job_title r, confidence r))
       (get_top_job_recommendations demo_env ''Python and SQL\<newline>\<newline>Docker'' 3) =
     [(''Software Engineer'', 1/2), (''UX Designer'', 1/4), (''Product Manager'', 1/10)]"
    by code_simp
  have 1: "process_resume_file demo_env ''missing.pdf'' [] =
     (ErrorResult ''Resume file not found: missing.pdf'', [])"
    using process_resume_file_shapes [of demo_env "''missing.pdf''" "[]"] a by simp
  have 2: "process_resume_file demo_env ''notes.txt'' [] =
     (ErrorResult ''Unsupported file format. Only .pdf and .docx are supported.'', [])"
    using process_resume_file_shapes [of demo_env "''notes.txt''" "[]"] b by simp
  have 3: "\<exists>rs. fst (process_resume_file demo_env ''cv.pdf'' []) = Recommendations rs
          \<and> map (\<lambda>r. (job_title r, confidence r)) rs =
            [(''Software Engineer'', 1/2), (''UX Designer'', 1/4), (''Product Manager'', 1/10)]"
    using process_resume_file_shapes [of demo_env "''cv.pdf''" "[]"] demo_cv_text top by simp
  from 1 2 3 show ?thesis by blast
qed

text \<open>
  Claim C1 as stated fails where it says that an exception raised during encoding ends
  in the error shape: in the system whose vectorizer raises on every text, the resume
  \<open>cv.pdf\<close> is extracted, the vectorizer raises on its text, and the result is the
  recommendations shape with three entries.
\<close>

theorem encoder_exception_gives_recommendations:
  "extract_text_from_resume unfitted_env ''cv.pdf'' = Inr ''Python and SQL\<newline>\<newline>Docker''
   \<and> vectorizer_transform unfitted_env ''Python and SQL\<newline>\<newline>Docker'' =
       Inl (LibraryError ''vocabulary not fitted'')
   \<and> fst (process_resume_file unfitted_env ''cv.pdf'' []) =
       Recommendations
        [\<lparr>job_title = ''Software Engineer'', confidence = 1/2,
          training_courses = Records [api_key_missing]\<rparr>,
         \<lparr>job_title = ''UX Designer'', confidence = 1/4,
          training_courses = Records [api_key_missing]\<rparr>,
         \<lparr>job_title = ''Product Manager'', confidence = 1/10,
          training_courses = Records [api_key_missing]\<rparr>]"
  by code_simp

section \<open>A failing model\<close>

text \<open>
  Claim C10. When \<open>predict\<close> raises on the features of the resume text,
  \<open>get_top_job_recommendations\<close> returns exactly the one-element list with the title
  \<open>Error in prediction\<close> and confidence \<open>0.0\<close>, for every \<open>top_n\<close>; and a pipeline run
  whose extraction gives that text calls the enrichment once, with that literal title,
  and returns the single entry carrying its courses.
\<close>

theorem prediction_failure_gives_sentinel:
  assumes "model_predict E (preprocess_resume E resume_text) = Inl e"
  shows "get_top_job_recommendations E resume_text top_n =
           [\<lparr>job_title = ''Error in prediction'', confidence = 0\<rparr>]
         \<and> (extract_text_from_resume E p = Inr resume_text \<longrightarrow>
              process_resume_file E p sent =
                (Recommendations
                   [\<lparr>job_title = ''Error in prediction'', confidence = 0,
                     training_courses =
                       fst (get_training_courses E ''Error in prediction'' resume_text sent)\<rparr>],
                 snd (get_training_courses E ''Error in prediction'' resume_text sent)))"
  using assms
  by (simp add: get_top_job_recommendations_def error_in_prediction_def
                process_resume_file_def split_beta)

theorem prediction_failure_gives_sentinel_witness:
  "model_predict failing_model_env
       (preprocess_resume failing_model_env ''Python and SQL\<newline>\<newline>Docker'') =
     Inl (LibraryError ''Graph execution error'')
   \<and> get_top_job_recommendations failing_model_env ''Python and SQL\<newline>\<newline>Docker'' 3 =
       [\<lparr>job_title = ''Error in prediction'', confidence = 0\<rparr>]
   \<and> process_resume_file failing_model_env ''cv.pdf'' [] =
       (Recommendations
          [\<lparr>job_title = ''Error in prediction'', confidence = 0,
            training_courses = Records [api_key_missing]\<rparr>], [])"
proof -
  have h: "model_predict failing_model_env
       (preprocess_resume failing_model_env ''Python and SQL\<newline>\<newline>Docker'') =
     Inl (LibraryError ''Graph execution error'')"
    by (simp add: failing_model_env_def)
  have x: "extract_text_from_resume failing_model_env ''cv.pdf'' =
      Inr ''Python and SQL\<newline>\<newline>Docker''"
    by code_simp
  have c: "get_training_courses failing_model_env ''Error in prediction''
             ''Python and SQL\<newline>\<newline>Docker'' [] = (Records [api_key_missing], [])"
    by (simp add: get_training_courses_def failing_model_env_def demo_env_def)
  from prediction_failure_gives_sentinel [OF h, of 3 "''cv.pdf''" "[]"] h x c
  show ?thesis by simp
qed

section \<open>A text without enumerated lines\<close>

lemma rev_dropWhile_rev_prefix:
  "rev (dropWhile P (rev xs)) @ rev (takeWhile P (rev xs)) = xs"
proof -
  have "rev (dropWhile P (rev xs)) @ rev (takeWhile P (rev xs)) =
        rev (takeWhile P (rev xs) @ dropWhile P (rev xs))"
    by (simp only: rev_append)
  also have "\<dots> = rev (rev xs)"
    by (simp only: takeWhile_dropWhile_id)
  finally show ?thesis
    by simp
qed

lemma strip_is_prefix_of_lstrip:
  "lstrip s = strip s @ rev (takeWhile is_space (rev (lstrip s)))"
  unfolding strip_def lstrip_def
  by (simp only: rev_dropWhile_rev_prefix)

lemma startswith_append:
  assumes "startswith a tok"
  shows "startswith (a @ b) tok"
proof -
  from assms have eq: "take (length tok) a = tok"
    by (simp add: startswith_def)
  then have "length (take (length tok) a) = length tok"
    by simp
  then have "length tok \<le> length a"
    by simp
  with eq show ?thesis
    by (simp add: startswith_def)
qed

lemma starts_section_lstrip:
  assumes "starts_section line"
  shows "list_ex (startswith (lstrip line)) enumerators"
proof -
  from assms obtain tok where tok: "tok \<in> set enumerators" "startswith (strip line) tok"
    by (auto simp: starts_section_def list_ex_iff)
  from tok(2) have "startswith (strip line @ rev (takeWhile is_space (rev (lstrip line)))) tok"
    by (rule startswith_append)
  then have "startswith (lstrip line) tok"
    using strip_is_prefix_of_lstrip [of line] by simp
  with tok(1) show ?thesis
    by (auto simp: list_ex_iff)
qed

lemma no_section_start_keeps_closed:
  assumes "\<forall>line \<in> set lines. \<not> starts_section line"
  shows "foldl section_step ([], []) lines = ([], [])"
  using assms by (induction lines) (simp_all add: section_step_def)

lemma no_enumerator_no_sections:
  assumes "\<forall>line \<in> set (split CHR ''\<newline>'' t). \<not> list_ex (startswith (lstrip line)) enumerators"
  shows "split_sections t = []"
proof -
  from assms have "\<forall>line \<in> set (split CHR ''\<newline>'' t). \<not> starts_section line"
    using starts_section_lstrip by blast
  then show ?thesis
    by (simp add: split_sections_def no_section_start_keeps_closed)
qed

lemma find_from_absent: "c \<notin> set s \<Longrightarrow> find_from c s i = -1"
  by (induction s arbitrary: i) auto

lemma find_absent: "c \<notin> set s \<Longrightarrow> find s c = -1"
  by (simp add: find_def find_from_absent)

lemma rfind_absent: "c \<notin> set s \<Longrightarrow> rfind s c = -1"
  by (simp add: rfind_def find_from_absent)

lemma no_bracket_goes_to_fallback:
  assumes "CHR ''['' \<notin> set t \<or> CHR '']'' \<notin> set t"
  shows "parse_text_response E (JStr t) = Inr (Records (extract_courses_from_text t))"
  using assms by (auto simp: parse_text_response_def find_absent rfind_absent)

lemma answered_200:
  assumes "gemini_api_key E = Some key" "key \<noteq> []"
    and "requests_post E sent (build_request key job resume_text) = Inr r"
    and "status_code r = 200"
    and "text_response_of r = Inr v"
  shows "get_training_courses E job resume_text sent =
           ((case parse_text_response E v of Inr cs \<Rightarrow> cs | Inl e \<Rightarrow> Records [api_exception e]),
            sent @ [build_request key job resume_text])"
  using assms by (simp add: get_training_courses_def parse_success_def bind_def)

text \<open>
  Claim C9. When no line of the text, with its leading whitespace removed, starts with
  one of the six enumerator tokens, the fallback parser returns the empty list. So a
  response with status 200 whose generated text has no \<open>[\<close> (or no \<open>]\<close>) and no
  enumerated line makes \<open>get_training_courses\<close> return no course at all, after its one
  request; whereas without a key, on an exception of the request, on any other status
  and on an exception while reading the response, it returns exactly one record.
\<close>

theorem no_enumerated_line_gives_no_course:
  assumes "\<forall>line \<in> set (split CHR ''\<newline>'' t). \<not> list_ex (startswith (lstrip line)) enumerators"
  shows "extract_courses_from_text t = []
     \<and> (gemini_api_key E = Some key \<and> key \<noteq> []
          \<and> requests_post E sent (build_request key job resume_text) = Inr r
          \<and> status_code r = 200 \<and> text_response_of r = Inr (JStr t)
          \<and> (CHR ''['' \<notin> set t \<or> CHR '']'' \<notin> set t)
        \<longrightarrow> get_training_courses E job resume_text sent =
              (Records [], sent @ [build_request key job resume_text]))
     \<and> (gemini_api_key F = None \<or> gemini_api_key F = Some []
          \<or> (\<exists>k e. gemini_api_key F = Some k
                \<and> requests_post F sent (build_request k job resume_text) = Inl e)
          \<or> (\<exists>k r'. gemini_api_key F = Some k
                \<and> requests_post F sent (build_request k job resume_text) = Inr r'
                \<and> (status_code r' \<noteq> 200 \<or> (\<exists>e. parse_success F r' = Inl e)))
        \<longrightarrow> (\<exists>c. fst (get_training_courses F job resume_text sent) = Records [c]))"
proof -
  have empty: "extract_courses_from_text t = []"
    using assms by (simp add: extract_courses_from_text_def no_enumerator_no_sections)
  have ok: "get_training_courses E job resume_text sent =
              (Records [], sent @ [build_request key job resume_text])"
    if "gemini_api_key E = Some key" "key \<noteq> []"
      "requests_post E sent (build_request key job resume_text) = Inr r"
      "status_code r = 200" "text_response_of r = Inr (JStr t)"
      "CHR ''['' \<notin> set t \<or> CHR '']'' \<notin> set t"
    using answered_200 [OF that(1-5)] no_bracket_goes_to_fallback [OF that(6), of E] empty
    by simp
  have other: "\<exists>c. fst (get_training_courses F job resume_text sent) = Records [c]"
    if "gemini_api_key F = None \<or> gemini_api_key F = Some []
          \<or> (\<exists>k e. gemini_api_key F = Some k
                \<and> requests_post F sent (build_request k job resume_text) = Inl e)
          \<or> (\<exists>k r'. gemini_api_key F = Some k
                \<and> requests_post F sent (build_request k job resume_text) = Inr r'
                \<and> (status_code r' \<noteq> 200 \<or> (\<exists>e. parse_success F r' = Inl e)))"
    using that by (auto simp: get_training_courses_def)
  from empty ok other show ?thesis
    by blast
qed

theorem no_enumerated_line_gives_no_course_witness:
  "extract_courses_from_text ''Sorry, I cannot recommend any course.'' = []
   \<and> get_training_courses (answering_env ''Sorry, I cannot recommend any course.'')
        ''Data Scientist'' ''Python and SQL'' [] =
       (Records [], [build_request ''secret'' ''Data Scientist'' ''Python and SQL''])
   \<and> (\<exists>c. fst (get_training_courses demo_env ''Data Scientist'' ''Python and SQL'' []) = Records [c])
   \<and> (\<exists>c. fst (get_training_courses offline_env ''Data Scientist'' ''Python and SQL'' []) = Records [c])
   \<and> (\<exists>c. fst (get_training_courses refusing_env ''Data Scientist'' ''Python and SQL'' []) = Records [c])"
proof -
  let ?t = "''Sorry, I cannot recommend any course.''"
  let ?req = "build_request ''secret'' ''Data Scientist'' ''Python and SQL''"
  let ?r = "\<lparr>status_code = 200, response_json = Inr (gemini_body ?t), response_text = []\<rparr>"
  have h: "\<forall>line \<in> set (split CHR ''\<newline>'' ?t). \<not> list_ex (startswith (lstrip line)) enumerators"
    by code_simp
  have e: "gemini_api_key (answering_env ?t) = Some ''secret'' \<and> ''secret'' \<noteq> []
          \<and> requests_post (answering_env ?t) [] ?req = Inr ?r
          \<and> status_code ?r = 200"
    by (simp add: answering_env_def)
  have tr: "text_response_of ?r = Inr (JStr ?t)"
    by (simp add: text_response_of_def bind_def gemini_body_def)
  have nb: "CHR ''['' \<notin> set ?t \<or> CHR '']'' \<notin> set ?t"
    by simp
  have f1: "gemini_api_key demo_env = None"
    by (simp add: demo_env_def)
  have f2: "gemini_api_key offline_env = Some ''secret''
          \<and> requests_post offline_env [] ?req = Inl (LibraryError ''Connection refused'')"
    by (simp add: offline_env_def demo_env_def)
  let ?r429 = "\<lparr>status_code = 429,
                response_json =
                  Inr (JObj [(''error'', JObj [(''message'', JStr ''Quota exceeded'')])]),
                response_text = []\<rparr>"
  have f3: "gemini_api_key refusing_env = Some ''secret''
          \<and> requests_post refusing_env [] ?req = Inr ?r429"
    by (simp add: refusing_env_def)
  note w1 = no_enumerated_line_gives_no_course
    [OF h, of "answering_env ?t" "''secret''" "[]" "''Data Scientist''" "''Python and SQL''" ?r demo_env]
  note w2 = no_enumerated_line_gives_no_course
    [OF h, of "answering_env ?t" "''secret''" "[]" "''Data Scientist''" "''Python and SQL''" ?r offline_env]
  note w3 = no_enumerated_line_gives_no_course
    [OF h, of "answering_env ?t" "''secret''" "[]" "''Data Scientist''" "''Python and SQL''" ?r refusing_env]
  have 1: "extract_courses_from_text ?t = []"
    using w1 by blast
  have 2: "get_training_courses (answering_env ?t) ''Data Scientist'' ''Python and SQL'' [] =
       (Records [], [?req])"
    using w1 e tr nb by simp
  have 3: "\<exists>c. fst (get_training_courses demo_env ''Data Scientist'' ''Python and SQL'' []) = Records [c]"
    using w1 f1 by blast
  have 4: "\<exists>c. fst (get_training_courses offline_env ''Data Scientist'' ''Python and SQL'' []) = Records [c]"
    using w2 f2 by blast
  have p3: "\<exists>k r'. gemini_api_key refusing_env = Some k
                \<and> requests_post refusing_env [] (build_request k ''Data Scientist'' ''Python and SQL'') = Inr r'
                \<and> (status_code r' \<noteq> 200 \<or> (\<exists>e. parse_success refusing_env r' = Inl e))"
    by (rule exI [of _ "''secret''"], rule exI [of _ ?r429]) (simp add: f3)
  have 5: "\<exists>c. fst (get_training_courses refusing_env ''Data Scientist'' ''Python and SQL'' []) = Records [c]"
    using w3 p3 by blast
  from 1 2 3 4 5 show ?thesis by blast
qed

section \<open>The bracketed span of a response\<close>

lemma find_from_first:
  "c \<notin> set pre \<Longrightarrow> find_from c (pre @ c # rest) i = int (i + length pre)"
  by (induction pre arbitrary: i) auto

lemma find_first: "c \<notin> set pre \<Longrightarrow> find (pre @ c # rest) c = int (length pre)"
  by (simp add: find_def find_from_first)

lemma rfind_last:
  assumes "c \<notin> set post"
  shows "rfind (xs @ c # post) c = int (length xs)"
proof -
  have "c \<notin> set (rev post)"
    using assms by simp
  then have "find_from c (rev post @ c # rev xs) 0 = int (0 + length (rev post))"
    by (rule find_from_first)
  then show ?thesis
    by (simp add: rfind_def)
qed

lemma slice_middle: "slice (pre @ l @ post) (length pre) (length pre + length l) = l"
  by (simp add: slice_def)

lemma bracket_span:
  assumes "CHR ''['' \<notin> set pre" "CHR '']'' \<notin> set post"
  shows "parse_text_response E (JStr (pre @ CHR ''['' # body @ CHR '']'' # post)) =
          (case json_loads E (CHR ''['' # body @ '']'') of
             Inr parsed \<Rightarrow> Inr (Parsed parsed)
           | Inl e \<Rightarrow>
               (case e of
                  JSONDecodeError m \<Rightarrow>
                    Inr (Records (extract_courses_from_text
                                    (pre @ CHR ''['' # body @ CHR '']'' # post)))
                | _ \<Rightarrow> Inl e))"
proof -
  let ?t = "pre @ CHR ''['' # body @ CHR '']'' # post"
  have f: "find ?t CHR ''['' = int (length pre)"
    using assms(1) by (rule find_first)
  have "rfind ((pre @ CHR ''['' # body) @ CHR '']'' # post) CHR '']'' =
          int (length (pre @ CHR ''['' # body))"
    using assms(2) by (rule rfind_last)
  then have r: "rfind ?t CHR '']'' = int (length pre + length body + 1)"
    by simp
  have "slice (pre @ (CHR ''['' # body @ '']'') @ post) (length pre)
          (length pre + length (CHR ''['' # body @ '']'')) = CHR ''['' # body @ '']''"
    by (rule slice_middle)
  then have s: "slice ?t (length pre) (Suc (Suc (length pre + length body))) =
                  CHR ''['' # body @ '']''"
    by simp
  show ?thesis
    by (simp add: parse_text_response_def f r s Let_def nat_add_distrib)
qed

text \<open>
  Claim C3, as the code has it. On a response with status 200 whose generated text is
  read, the parser decodes the span from the first \<open>[\<close> to the last \<open>]\<close> of the text.
  So for a text made of prose without \<open>[\<close>, then a list \<open>[\<dots>]\<close> that \<open>json.loads\<close>
  decodes, then prose without \<open>]\<close>, \<open>get_training_courses\<close> returns exactly the
  decoded list; when \<open>json.loads\<close> raises \<open>JSONDecodeError\<close> on the span, or the text has
  no \<open>[\<close> or no \<open>]\<close>, it returns what the fallback parser makes of the whole text.
\<close>

theorem first_to_last_bracket_is_decoded:
  assumes "gemini_api_key E = Some key" and "key \<noteq> []"
    and "requests_post E sent (build_request key job resume_text) = Inr r"
    and "status_code r = 200"
    and "text_response_of r = Inr (JStr t)"
  shows "(\<forall>pre body post v.
            t = pre @ CHR ''['' # body @ CHR '']'' # post
            \<and> CHR ''['' \<notin> set pre \<and> CHR '']'' \<notin> set post
            \<and> json_loads E (CHR ''['' # body @ '']'') = Inr v
          \<longrightarrow> fst (get_training_courses E job resume_text sent) = Parsed v)
       \<and> (\<forall>pre body post m.
            t = pre @ CHR ''['' # body @ CHR '']'' # post
            \<and> CHR ''['' \<notin> set pre \<and> CHR '']'' \<notin> set post
            \<and> json_loads E (CHR ''['' # body @ '']'') = Inl (JSONDecodeError m)
          \<longrightarrow> fst (get_training_courses E job resume_text sent) =
                Records (extract_courses_from_text t))
       \<and> (CHR ''['' \<notin> set t \<or> CHR '']'' \<notin> set t
          \<longrightarrow> fst (get_training_courses E job resume_text sent) =
                Records (extract_courses_from_text t))"
proof -
  note run = answered_200 [OF assms]
  have decoded: "fst (get_training_courses E job resume_text sent) = Parsed v"
    if "t = pre @ CHR ''['' # body @ CHR '']'' # post"
      "CHR ''['' \<notin> set pre" "CHR '']'' \<notin> set post"
      "json_loads E (CHR ''['' # body @ '']'') = Inr v"
    for pre body post v
    using run bracket_span [OF that(2,3), of E body] that(1,4) by simp
  have malformed: "fst (get_training_courses E job resume_text sent) =
                     Records (extract_courses_from_text t)"
    if "t = pre @ CHR ''['' # body @ CHR '']'' # post"
      "CHR ''['' \<notin> set pre" "CHR '']'' \<notin> set post"
      "json_loads E (CHR ''['' # body @ '']'') = Inl (JSONDecodeError m)"
    for pre body post m
    using run bracket_span [OF that(2,3), of E body] that(1,4) by simp
  have missing: "fst (get_training_courses E job resume_text sent) =
                   Records (extract_courses_from_text t)"
    if "CHR ''['' \<notin> set t \<or> CHR '']'' \<notin> set t"
    using run no_bracket_goes_to_fallback [OF that, of E] by simp
  from decoded malformed missing show ?thesis
    by blast
qed

theorem first_to_last_bracket_is_decoded_witness:
  "fst (get_training_courses
          (answering_env (''Here are courses: '' @ one_course_text @ '' Thanks''))
          ''Data Scientist'' ''Python and SQL'' []) = Parsed one_course_value
   \<and> fst (get_training_courses
          (answering_env ''1. Python Basics\<newline>Provider: Udemy [online]'')
          ''Data Scientist'' ''Python and SQL'' []) =
       Records [\<lparr>course_name = ''Unknown Course'', provider = ''Udemy [online]'',
                 description = ''1. Python Basics\<newline>Provider: Udemy [online]'',
                 url = [], relevance = []\<rparr>]
   \<and> fst (get_training_courses
          (answering_env ''1. Python Basics\<newline>Provider: Udemy'')
          ''Data Scientist'' ''Python and SQL'' []) =
       Records [\<lparr>course_name = ''Unknown Course'', provider = ''Udemy'',
                 description = ''1. Python Basics\<newline>Provider: Udemy'',
                 url = [], relevance = []\<rparr>]"
proof -
  let ?req = "build_request ''secret'' ''Data Scientist'' ''Python and SQL''"
  let ?body = "''{'' @ [CHR 0x22] @ ''course_name'' @ [CHR 0x22] @ '': ''
                 @ [CHR 0x22] @ ''X'' @ [CHR 0x22] @ ''}''"
  let ?t1 = "''Here are courses: '' @ one_course_text @ '' Thanks''"
  let ?t2 = "''1. Python Basics\<newline>Provider: Udemy [online]''"
  let ?t3 = "''1. Python Basics\<newline>Provider: Udemy''"
  have env: "gemini_api_key (answering_env t) = Some ''secret''"
    "requests_post (answering_env t) [] ?req =
       Inr \<lparr>status_code = 200, response_json = Inr (gemini_body t), response_text = []\<rparr>"
    "status_code \<lparr>status_code = 200, response_json = Inr (gemini_body t),
                  response_text = []\<rparr> = 200"
    "text_response_of \<lparr>status_code = 200, response_json = Inr (gemini_body t),
                       response_text = []\<rparr> = Inr (JStr t)"
    "json_loads (answering_env t) = example_loads" for t
    by (simp_all add: answering_env_def text_response_of_def bind_def gemini_body_def)
  have key: "''secret'' \<noteq> []"
    by simp
  note w1 = first_to_last_bracket_is_decoded [OF env(1) key env(2) env(3) env(4), of ?t1]
  note w2 = first_to_last_bracket_is_decoded [OF env(1) key env(2) env(3) env(4), of ?t2]
  note w3 = first_to_last_bracket_is_decoded [OF env(1) key env(2) env(3) env(4), of ?t3]
  have split1: "?t1 = ''Here are courses: '' @ CHR ''['' # ?body @ CHR '']'' # '' Thanks''
      \<and> CHR ''['' \<notin> set ''Here are courses: '' \<and> CHR '']'' \<notin> set '' Thanks''
      \<and> json_loads (answering_env ?t1) (CHR ''['' # ?body @ '']'') = Inr one_course_value"
    by (simp add: env(5) one_course_text_def example_loads_def)
  have split2: "?t2 = ''1. Python Basics\<newline>Provider: Udemy '' @ CHR ''['' # ''online'' @ CHR '']'' # []
      \<and> CHR ''['' \<notin> set ''1. Python Basics\<newline>Provider: Udemy '' \<and> CHR '']'' \<notin> set []
      \<and> json_loads (answering_env ?t2) (CHR ''['' # ''online'' @ '']'') =
          Inl (JSONDecodeError ''Extra data'')"
    by (simp add: env(5) one_course_text_def example_loads_def)
  have plain: "CHR ''['' \<notin> set ?t3 \<or> CHR '']'' \<notin> set ?t3"
    by simp
  have x2: "extract_courses_from_text ?t2 =
       [\<lparr>course_name = ''Unknown Course'', provider = ''Udemy [online]'',
         description = ?t2, url = [], relevance = []\<rparr>]"
    by code_simp
  have x3: "extract_courses_from_text ?t3 =
       [\<lparr>course_name = ''Unknown Course'', provider = ''Udemy'',
         description = ?t3, url = [], relevance = []\<rparr>]"
    by code_simp
  have 1: "fst (get_training_courses (answering_env ?t1)
                  ''Data Scientist'' ''Python and SQL'' []) = Parsed one_course_value"
    using w1 split1 by blast
  have "fst (get_training_courses (answering_env ?t2)
                  ''Data Scientist'' ''Python and SQL'' []) =
           Records (extract_courses_from_text ?t2)"
    using w2 split2 by blast
  then have 2: "fst (get_training_courses (answering_env ?t2)
                  ''Data Scientist'' ''Python and SQL'' []) =
       Records [\<lparr>course_name = ''Unknown Course'', provider = ''Udemy [online]'',
                 description = ?t2, url = [], relevance = []\<rparr>]"
    by (simp only: x2)
  have "fst (get_training_courses (answering_env ?t3)
                  ''Data Scientist'' ''Python and SQL'' []) =
           Records (extract_courses_from_text ?t3)"
    using w3 plain by blast
  then have 3: "fst (get_training_courses (answering_env ?t3)
                  ''Data Scientist'' ''Python and SQL'' []) =
       Records [\<lparr>course_name = ''Unknown Course'', provider = ''Udemy'',
                 description = ?t3, url = [], relevance = []\<rparr>]"
    by (simp only: x3)
  from 1 2 3 show ?thesis
    by blast
qed

text \<open>
  Claim C3 as stated fails when the prose around the list has a bracket of its own. The
  text below embeds the list of one course, which \<open>json.loads\<close> decodes, between
  \<open>Here are courses:\<close> and \<open>Thanks [see links]\<close>; the span from the first \<open>[\<close> to the
  last \<open>]\<close> then runs to the end of \<open>[see links]\<close>, \<open>json.loads\<close> raises
  \<open>JSONDecodeError\<close> on it, and the fallback parser, finding no enumerated line, returns
  no course: the embedded list is not returned.
\<close>

theorem bracket_in_prose_loses_the_list:
  "json_loads (answering_env (''Here are courses: '' @ one_course_text @ '' Thanks [see links]''))
      one_course_text = Inr one_course_value
   \<and> fst (get_training_courses
          (answering_env (''Here are courses: '' @ one_course_text @ '' Thanks [see links]''))
          ''Data Scientist'' ''Python and SQL'' []) = Records []"
  by code_simp

section \<open>The order of the recommendations\<close>

lemma slice_from_neg_is_drop: "\<exists>k. slice_from_neg xs n = drop k xs"
  by (auto simp: slice_from_neg_def)

lemma sorted_wrt_slice_from_neg:
  "sorted_wrt R xs \<Longrightarrow> sorted_wrt R (slice_from_neg xs n)"
  using slice_from_neg_is_drop [of xs n] by (auto simp: sorted_wrt_drop)

lemma set_slice_from_neg: "set (slice_from_neg xs n) \<subseteq> set xs"
  using slice_from_neg_is_drop [of xs n] by (auto dest: in_set_dropD)

lemma argsort_in_range:
  assumes "is_argsort scores idxs"
  shows "\<forall>i \<in> set idxs. i < length scores"
proof -
  from assms have "set idxs = set [0..<length scores]"
    by (metis is_argsort_def mset_eq_setD)
  then show ?thesis
    by simp
qed

lemma top_indices_in_range:
  assumes "is_argsort scores (np_argsort E scores)"
  shows "list_all (\<lambda>idx. idx < length scores) (top_indices E scores top_n)"
  using argsort_in_range [OF assms] set_slice_from_neg [of "np_argsort E scores"]
  by (auto simp: top_indices_def list_all_iff)

lemma top_indices_descending:
  assumes "is_argsort scores (np_argsort E scores)"
  shows "sorted_wrt (\<ge>) (map (\<lambda>i. scores ! i) (top_indices E scores top_n))"
proof -
  from assms have "sorted_wrt (\<le>) (map (\<lambda>i. scores ! i) (np_argsort E scores))"
    by (simp add: is_argsort_def)
  then have "sorted_wrt (\<lambda>i j. scores ! i \<le> scores ! j) (np_argsort E scores)"
    by (simp add: sorted_wrt_map)
  then have "sorted_wrt (\<lambda>i j. scores ! i \<le> scores ! j)
               (slice_from_neg (np_argsort E scores) (min top_n (int (dict_len (job_titles E)))))"
    by (rule sorted_wrt_slice_from_neg)
  then show ?thesis
    by (simp add: top_indices_def sorted_wrt_map sorted_wrt_rev)
qed

lemma recommendations_of_scores:
  assumes "model_predict E (preprocess_resume E resume_text) = Inr scores"
    and "is_argsort scores (np_argsort E scores)"
  shows "get_top_job_recommendations E resume_text top_n =
           map (\<lambda>idx. \<lparr>job_title = dict_get (job_titles E) (str_nat idx)
                                      (''Job Category '' @ str_nat (idx + 1)),
                        confidence = scores ! idx\<rparr>)
               (top_indices E scores top_n)"
  using assms(1) top_indices_in_range [OF assms(2), of top_n]
  by (simp add: get_top_job_recommendations_def)

text \<open>Equal keys keep their order under insertion sort.\<close>

lemma insort_key_keeps_ties:
  assumes "sorted_wrt (\<lambda>x y. f x = f y \<longrightarrow> x < y) ys"
    and "\<forall>y \<in> set ys. f x = f y \<longrightarrow> x < y"
  shows "sorted_wrt (\<lambda>x y. f x = f y \<longrightarrow> x < y) (insort_key f x ys)"
  using assms by (induction ys) (auto simp: set_insort_key)

lemma sort_key_keeps_ties:
  assumes "sorted_wrt (<) xs"
  shows "sorted_wrt (\<lambda>x y. f x = f y \<longrightarrow> x < y) (sort_key f xs)"
  using assms
proof (induction xs)
  case Nil
  then show ?case by simp
next
  case (Cons x xs)
  then have "sorted_wrt (\<lambda>x y. f x = f y \<longrightarrow> x < y) (sort_key f xs)"
    by simp
  moreover from Cons.prems have "\<forall>y \<in> set (sort_key f xs). f x = f y \<longrightarrow> x < y"
    by simp
  ultimately show ?case
    by (simp add: insort_key_keeps_ties)
qed

lemma stable_argsort_ties:
  "sorted_wrt (\<lambda>x y. scores ! x = scores ! y \<longrightarrow> x < y) (stable_argsort scores)"
  unfolding stable_argsort_def
  by (rule sort_key_keeps_ties) (simp add: sorted_wrt_upt)

lemma stable_argsort_is_argsort: "is_argsort scores (stable_argsort scores)"
  by (simp add: is_argsort_def stable_argsort_def)

text \<open>
  Claim C4, as the code has it. For every score vector that the model returns and every
  \<open>argsort\<close> of it, the recommendations carry the scores of the chosen indices and are
  in descending order of confidence. Their order among equal scores is the reverse of
  the order \<open>argsort\<close> gave them: when \<open>argsort\<close> keeps equal scores in index order, of
  two recommendations with equal scores the one with the higher original index comes
  first.
\<close>

theorem recommendations_descending:
  assumes "model_predict E (preprocess_resume E resume_text) = Inr scores"
    and "is_argsort scores (np_argsort E scores)"
  shows "map confidence (get_top_job_recommendations E resume_text top_n) =
           map (\<lambda>i. scores ! i) (top_indices E scores top_n)
       \<and> sorted_wrt (\<ge>) (map confidence (get_top_job_recommendations E resume_text top_n))
       \<and> (np_argsort E scores = stable_argsort scores \<longrightarrow>
            sorted_wrt (\<lambda>x y. scores ! x = scores ! y \<longrightarrow> y < x)
              (top_indices E scores top_n))"
proof -
  have conf: "map confidence (get_top_job_recommendations E resume_text top_n) =
           map (\<lambda>i. scores ! i) (top_indices E scores top_n)"
    by (simp add: recommendations_of_scores [OF assms] comp_def)
  have desc: "sorted_wrt (\<ge>) (map confidence (get_top_job_recommendations E resume_text top_n))"
    using top_indices_descending [OF assms(2), of top_n] by (simp only: conf)
  have ties: "sorted_wrt (\<lambda>x y. scores ! x = scores ! y \<longrightarrow> y < x)
              (top_indices E scores top_n)"
    if "np_argsort E scores = stable_argsort scores"
  proof -
    have "sorted_wrt (\<lambda>x y. scores ! x = scores ! y \<longrightarrow> x < y)
            (slice_from_neg (stable_argsort scores)
               (min top_n (int (dict_len (job_titles E)))))"
      using stable_argsort_ties by (rule sorted_wrt_slice_from_neg)
    then show ?thesis
      by (simp add: top_indices_def that sorted_wrt_rev eq_commute)
  qed
  from conf desc ties show ?thesis
    by blast
qed

lemma demo_scores:
  "model_predict demo_env (preprocess_resume demo_env ''Python and SQL'') =
     Inr [1/10, 1/2, 1/10, 1/4, 1/20]"
  by (simp add: demo_env_def preprocess_resume_def)

theorem recommendations_descending_witness:
  "model_predict demo_env (preprocess_resume demo_env ''Python and SQL'') =
     Inr [1/10, 1/2, 1/10, 1/4, 1/20]
   \<and> is_argsort [1/10, 1/2, 1/10, 1/4, 1/20] (np_argsort demo_env [1/10, 1/2, 1/10, 1/4, 1/20])
   \<and> map confidence (get_top_job_recommendations demo_env ''Python and SQL'' 3) =
       [1/2, 1/4, 1/10]
   \<and> sorted_wrt (\<ge>) (map confidence (get_top_job_recommendations demo_env ''Python and SQL'' 3))
   \<and> top_indices demo_env [1/10, 1/2, 1/10, 1/4, 1/20] 4 = [1, 3, 2, 0]
   \<and> sorted_wrt (\<lambda>x y. [1/10, 1/2, 1/10, 1/4, 1/20 :: real] ! x = [1/10, 1/2, 1/10, 1/4, 1/20] ! y
                       \<longrightarrow> y < x)
        (top_indices demo_env [1/10, 1/2, 1/10, 1/4, 1/20] 4)"
proof -
  let ?scores = "[1/10, 1/2, 1/10, 1/4, 1/20] :: real list"
  have st: "np_argsort demo_env ?scores = stable_argsort ?scores"
    by (simp add: demo_env_def)
  have arg: "is_argsort ?scores (np_argsort demo_env ?scores)"
    by (simp only: st stable_argsort_is_argsort)
  note w3 = recommendations_descending [OF demo_scores arg, of 3]
  note w4 = recommendations_descending [OF demo_scores arg, of 4]
  have t3: "map (\<lambda>i. ?scores ! i) (top_indices demo_env ?scores 3) = [1/2, 1/4, 1/10]"
    by code_simp
  have t4: "top_indices demo_env ?scores 4 = [1, 3, 2, 0]"
    by code_simp
  have 1: "map confidence (get_top_job_recommendations demo_env ''Python and SQL'' 3) =
       [1/2, 1/4, 1/10]"
    using w3 t3 by simp
  have 2: "sorted_wrt (\<ge>)
       (map confidence (get_top_job_recommendations demo_env ''Python and SQL'' 3))"
    using w3 by blast
  have 3: "sorted_wrt (\<lambda>x y. ?scores ! x = ?scores ! y \<longrightarrow> y < x)
        (top_indices demo_env ?scores 4)"
    using w4 st by blast
  from demo_scores arg 1 2 t4 3 show ?thesis
    by blast
qed

text \<open>
  Claim C4 as stated fails on ties. In the example system the categories \<open>0\<close> and \<open>2\<close>
  both score \<open>1/10\<close>; \<open>argsort\<close> lists them in index order, the reversal turns them
  round, and among the top four \<open>Product Manager\<close> (index \<open>2\<close>) comes before
  \<open>Data Scientist\<close> (index \<open>0\<close>).
\<close>

theorem tie_puts_higher_index_first:
  "np_argsort demo_env [1/10, 1/2, 1/10, 1/4, 1/20] = [4, 0, 2, 3, 1]
   \<and> top_indices demo_env [1/10, 1/2, 1/10, 1/4, 1/20] 4 = [1, 3, 2, 0]
   \<and> get_top_job_recommendations demo_env ''Python and SQL'' 4 =
       [\<lparr>job_title = ''Software Engineer'', confidence = 1/2\<rparr>,
        \<lparr>job_title = ''UX Designer'', confidence = 1/4\<rparr>,
        \<lparr>job_title = ''Product Manager'', confidence = 1/10\<rparr>,
        \<lparr>job_title = ''Data Scientist'', confidence = 1/10\<rparr>]"
  by code_simp

section \<open>The number of recommendations\<close>

lemma argsort_length:
  assumes "is_argsort scores idxs"
  shows "length idxs = length scores"
proof -
  from assms have "size (mset idxs) = size (mset [0..<length scores])"
    by (simp add: is_argsort_def)
  then show ?thesis
    by simp
qed

text \<open>
  The number of recommendations for a score vector, with \<open>n\<close> the smaller of \<open>top_n\<close>
  and the size of the title mapping: for \<open>n > 0\<close> the smaller of \<open>n\<close> and the number of
  scores, but for \<open>n \<le> 0\<close> the number of scores less \<open>-n\<close>.
\<close>

lemma recommendations_length:
  assumes "model_predict E (preprocess_resume E resume_text) = Inr scores"
    and "is_argsort scores (np_argsort E scores)"
  shows "length (get_top_job_recommendations E resume_text top_n) =
          (let n = min top_n (int (dict_len (job_titles E))) in
           if 0 < n then min (nat n) (length scores) else length scores - nat (- n))"
  using argsort_length [OF assms(2)]
  by (auto simp: recommendations_of_scores [OF assms] top_indices_def slice_from_neg_def Let_def)

text \<open>
  Claim C5 at \<open>top_n = 0\<close>. The example system has five categories and five titles; asked
  for the top \<open>0\<close>, \<open>get_top_job_recommendations\<close> returns all five recommendations, not
  at most \<open>min(0, 5) = 0\<close>: the slice \<open>[-0:]\<close> is the whole array.
\<close>

theorem top_zero_returns_every_category:
  "model_predict demo_env (preprocess_resume demo_env ''Python and SQL'') =
     Inr [1/10, 1/2, 1/10, 1/4, 1/20]
   \<and> dict_len (job_titles demo_env) = 5
   \<and> map job_title (get_top_job_recommendations demo_env ''Python and SQL'' 0) =
       [''Software Engineer'', ''UX Designer'', ''Product Manager'', ''Data Scientist'',
        ''DevOps Engineer'']
   \<and> length (get_top_job_recommendations demo_env ''Python and SQL'' 0) = 5"
  by code_simp

end
